theory Spec2Isabelle
  imports Main
begin

section \<open>The Lava client (src/lava.ts)\<close>

text \<open>
  The class \<^verbatim>\<open>Lava\<close> holds a base URL and an API key, has one public method per remote
  endpoint, and sends every call through the private method \<^verbatim>\<open>_request\<close>. The embedding
  follows that shape: JavaScript values as datatypes, the object literals \<^verbatim>\<open>data\<close> as
  association lists in the order of the literal, thrown exceptions as the left summand of
  a sum, and what the file takes from its platform (\<^verbatim>\<open>fetch\<close> and the way numbers are
  written) as fields of a record that the definitions take as a parameter.
\<close>

subsection \<open>Values\<close>

text \<open>
  Values that a caller can put into a parameter object. \<open>'n\<close> is the platform's number
  type, which the client never computes with. A valid \<^verbatim>\<open>Date\<close> is kept as the ISO-8601
  text that its \<^verbatim>\<open>toJSON\<close> yields, which is all that the serialised body shows of it.
  \<open>Undefined\<close> is the value of a missing property.
\<close>

datatype 'n jsval =
    Undefined
  | Null
  | Bool bool
  | Num 'n
  | Str string
  | Date string
  | Arr "'n jsval list"
  | Obj "(string \<times> 'n jsval) list"

type_synonym 'n object = "(string \<times> 'n jsval) list"

text \<open>Values that \<^verbatim>\<open>response.json()\<close> can yield.\<close>

datatype 'n json =
    JNull
  | JBool bool
  | JNum 'n
  | JStr string
  | JArr "'n json list"
  | JObj "(string \<times> 'n json) list"

text \<open>Reading a property of a parameter object: a missing property reads as undefined.\<close>

definition get :: "'n object \<Rightarrow> string \<Rightarrow> 'n jsval" where
  "get obj key = (case map_of obj key of None \<Rightarrow> Undefined | Some v \<Rightarrow> v)"

text \<open>\<^verbatim>\<open>delete data[key]\<close> on an object given by its list of own properties.\<close>

definition delete :: "string \<Rightarrow> 'n object \<Rightarrow> 'n object" where
  "delete key obj = filter (\<lambda>(k, v). k \<noteq> key) obj"

subsection \<open>The platform\<close>

text \<open>
  What \<^verbatim>\<open>fetch\<close> is called with (line 227 to 231), and what it resolves to: the client
  reads nothing of a response but its \<^verbatim>\<open>json()\<close>, which either throws (a message) or
  yields a parsed value. The HTTP status code is a field so that claims about it can be
  stated. A rejected \<^verbatim>\<open>fetch\<close> is \<open>Inl\<close> of the rejection's message.
\<close>

record fetch_call =
  url :: string
  http_method :: string
  body :: string
  headers :: "(string \<times> string) list"

record 'n response =
  status :: nat
  json :: "string + 'n json"

record 'n platform =
  fetch :: "fetch_call \<Rightarrow> string + 'n response"
  number_to_string :: "'n \<Rightarrow> string"
  is_finite :: "'n \<Rightarrow> bool"

subsection \<open>Conversion to text\<close>

fun join :: "string \<Rightarrow> string list \<Rightarrow> string" where
  "join sep [] = []"
| "join sep [x] = x"
| "join sep (x # y # ys) = x @ sep @ join sep (y # ys)"

text \<open>
  The messages of the two \<^verbatim>\<open>TypeError\<close>s that the body of \<^verbatim>\<open>_request\<close> can provoke, in
  the wording of V8. No theorem below depends on the wording.
\<close>

definition cannot_convert :: string where
  "cannot_convert = ''Cannot convert object to primitive value''"

definition cannot_read_null :: "string \<Rightarrow> string" where
  "cannot_read_null key =
     ''Cannot read properties of null (reading '' @ [CHR 0x27] @ key @ [CHR 0x27] @ '')''"

text \<open>
  \<^verbatim>\<open>`${v}`\<close> on a parsed value, \<open>None\<close> standing for the thrown \<^verbatim>\<open>TypeError\<close>. An array
  is joined with commas, null elements giving the empty text; a plain object gives
  \<^verbatim>\<open>[object Object]\<close>, unless it has an own property \<^verbatim>\<open>toString\<close>, which after parsing
  is never callable and makes the conversion throw.
\<close>

fun ToString :: "('n \<Rightarrow> string) \<Rightarrow> 'n json \<Rightarrow> string option" where
  "ToString nts JNull = Some ''null''"
| "ToString nts (JBool b) = Some (if b then ''true'' else ''false'')"
| "ToString nts (JNum n) = Some (nts n)"
| "ToString nts (JStr s) = Some s"
| "ToString nts (JArr xs) =
     map_option (join '','')
       (those (map (\<lambda>x. if x = JNull then Some [] else ToString nts x) xs))"
| "ToString nts (JObj props) =
     (if ''toString'' \<in> fst ` set props then None else Some ''[object Object]'')"

text \<open>The same for the value of a property that may be missing.\<close>

definition ToString_prop :: "('n \<Rightarrow> string) \<Rightarrow> 'n json option \<Rightarrow> string option" where
  "ToString_prop nts v = (case v of None \<Rightarrow> Some ''undefined'' | Some x \<Rightarrow> ToString nts x)"

definition typeof :: "'n json \<Rightarrow> string" where
  "typeof v = (case v of
       JNull \<Rightarrow> ''object''
     | JBool b \<Rightarrow> ''boolean''
     | JNum n \<Rightarrow> ''number''
     | JStr s \<Rightarrow> ''string''
     | JArr xs \<Rightarrow> ''object''
     | JObj props \<Rightarrow> ''object'')"

text \<open>
  \<^verbatim>\<open>result.status\<close>, \<^verbatim>\<open>result.code\<close>, \<^verbatim>\<open>result.message\<close>: reading a property of null throws,
  an object yields its own property, and neither an array nor a primitive has a property
  of one of these three names. \<open>Inr None\<close> is the value undefined.
\<close>

definition member :: "'n json \<Rightarrow> string \<Rightarrow> string + 'n json option" where
  "member v key = (case v of
       JNull \<Rightarrow> Inl (cannot_read_null key)
     | JObj props \<Rightarrow> Inr (map_of props key)
     | _ \<Rightarrow> Inr None)"

text \<open>
  \<^verbatim>\<open>JSON.stringify\<close>. A text is put between double quotes, with the two-character
  escapes for backspace, tab, line feed, form feed, carriage return, the double quote and
  the backslash, and \<^verbatim>\<open>\u00XX\<close> for the other characters below 32.
\<close>

definition hex_digit :: "nat \<Rightarrow> char" where
  "hex_digit d = ''0123456789abcdef'' ! (d mod 16)"

definition quote_char :: "char \<Rightarrow> string" where
  "quote_char c =
     (if c = CHR 0x08 then [CHR 0x5C, CHR ''b'']
      else if c = CHR 0x09 then [CHR 0x5C, CHR ''t'']
      else if c = CHR 0x0A then [CHR 0x5C, CHR ''n'']
      else if c = CHR 0x0C then [CHR 0x5C, CHR ''f'']
      else if c = CHR 0x0D then [CHR 0x5C, CHR ''r'']
      else if c = CHR 0x22 then [CHR 0x5C, CHR 0x22]
      else if c = CHR 0x5C then [CHR 0x5C, CHR 0x5C]
      else if (of_char c :: nat) < 32
        then [CHR 0x5C, CHR ''u'', CHR ''0'', CHR ''0'',
              hex_digit (of_char c div 16), hex_digit (of_char c)]
      else [c])"

definition quote :: "string \<Rightarrow> string" where
  "quote s = [CHR 0x22] @ concat (map quote_char s) @ [CHR 0x22]"

text \<open>
  The serialisation of one value, \<open>None\<close> where \<^verbatim>\<open>JSON.stringify\<close> gives undefined: such
  a property is left out of its object, and such an element of an array is written as
  null. A number that is not finite is written as null.
\<close>

fun serialize :: "('n \<Rightarrow> string) \<Rightarrow> ('n \<Rightarrow> bool) \<Rightarrow> 'n jsval \<Rightarrow> string option" where
  "serialize nts fin Undefined = None"
| "serialize nts fin Null = Some ''null''"
| "serialize nts fin (Bool b) = Some (if b then ''true'' else ''false'')"
| "serialize nts fin (Num n) = Some (if fin n then nts n else ''null'')"
| "serialize nts fin (Str s) = Some (quote s)"
| "serialize nts fin (Date text) = Some (quote text)"
| "serialize nts fin (Arr xs) =
     Some (''['' @ join '',''
       (map (\<lambda>x. case serialize nts fin x of None \<Rightarrow> ''null'' | Some t \<Rightarrow> t) xs) @ '']'')"
| "serialize nts fin (Obj props) =
     Some (''{'' @ join '',''
       (concat (map (\<lambda>p. case serialize nts fin (snd p) of
                       None \<Rightarrow> []
                     | Some t \<Rightarrow> [quote (fst p) @ '':'' @ t]) props)) @ ''}'')"

definition JSON_stringify :: "'n platform \<Rightarrow> 'n object \<Rightarrow> string" where
  "JSON_stringify pf data =
     (case serialize (number_to_string pf) (is_finite pf) (Obj data) of
        None \<Rightarrow> []
      | Some t \<Rightarrow> t)"

subsection \<open>The client\<close>

text \<open>\<^verbatim>\<open>class LavaError extends Error {}\<close>: an error is its message.\<close>

datatype LavaError = LavaError string

record Lava =
  pathPrefix :: string
  apiKey :: string

text \<open>\<^verbatim>\<open>new Lava(apiKey)\<close>: the field initialiser of line 68 and the constructor.\<close>

definition new_Lava :: "string \<Rightarrow> Lava" where
  "new_Lava key = \<lparr>pathPrefix = ''https://api.lava.ru'', apiKey = key\<rparr>"

text \<open>
  Lines 223 to 225: for every own key of \<^verbatim>\<open>data\<close>, in order, the property is deleted
  if its value is undefined.
\<close>

definition strip_undefined :: "'n object \<Rightarrow> 'n object" where
  "strip_undefined data =
     fold (\<lambda>key d. if get d key = Undefined then delete key d else d) (map fst data) data"

text \<open>
  Lines 219 to 231: the URL, the headers, the stripped \<^verbatim>\<open>data\<close> and the arguments
  that \<^verbatim>\<open>fetch\<close> is called with.
\<close>

definition fetch_args :: "'n platform \<Rightarrow> Lava \<Rightarrow> string \<Rightarrow> string \<Rightarrow> 'n object \<Rightarrow> fetch_call" where
  "fetch_args pf this method path data =
     (let url = pathPrefix this @ path;
          headers = [(''Authorization'', apiKey this)];
          data' = strip_undefined data
      in \<lparr>url = url, http_method = method, body = JSON_stringify pf data',
          headers = headers\<rparr>)"

text \<open>
  Lines 232 to 237, inside the \<^verbatim>\<open>try\<close>: \<open>Inl m\<close> is an exception with message \<open>m\<close>
  thrown there, \<open>Inr\<close> the value returned. The conjunction of line 233 reads
  \<^verbatim>\<open>result.status\<close> only when \<^verbatim>\<open>typeof result\<close> is \<^verbatim>\<open>'object'\<close>. The \<^verbatim>\<open>LavaError\<close> of line
  234 is thrown inside the \<^verbatim>\<open>try\<close> as well, so here it is a message like the others.
\<close>

definition inspect :: "'n platform \<Rightarrow> 'n response \<Rightarrow> string + 'n json" where
  "inspect pf response =
     (case json response of
        Inl m \<Rightarrow> Inl m
      | Inr result \<Rightarrow>
          if typeof result = ''object'' then
            (case member result ''status'' of
               Inl m \<Rightarrow> Inl m
             | Inr st \<Rightarrow>
                 if st = Some (JStr ''error'') then
                   (case member result ''code'' of
                      Inl m \<Rightarrow> Inl m
                    | Inr code \<Rightarrow>
                       (case ToString_prop (number_to_string pf) code of
                          None \<Rightarrow> Inl cannot_convert
                        | Some c \<Rightarrow>
                           (case member result ''message'' of
                              Inl m \<Rightarrow> Inl m
                            | Inr message \<Rightarrow>
                               (case ToString_prop (number_to_string pf) message of
                                  None \<Rightarrow> Inl cannot_convert
                                | Some t \<Rightarrow> Inl (c @ '': '' @ t)))))
                 else Inr result)
          else Inr result)"

text \<open>
  Lines 226 to 240: the \<^verbatim>\<open>try\<close> around the awaited \<^verbatim>\<open>fetch\<close> and the inspection of
  its response, and the \<^verbatim>\<open>catch\<close> that turns every exception into a \<^verbatim>\<open>LavaError\<close> with
  the same message.
\<close>

definition settle :: "'n platform \<Rightarrow> string + 'n response \<Rightarrow> LavaError + 'n json" where
  "settle pf fetched =
     (case (case fetched of Inl m \<Rightarrow> Inl m | Inr response \<Rightarrow> inspect pf response) of
        Inl m \<Rightarrow> Inl (LavaError m)
      | Inr result \<Rightarrow> Inr result)"

text \<open>
  \<^verbatim>\<open>_request\<close>. A method without parameters leaves \<^verbatim>\<open>data\<close> out, and its default is
  the empty object.
\<close>

definition request ::
  "'n platform \<Rightarrow> Lava \<Rightarrow> string \<Rightarrow> string \<Rightarrow> 'n object \<Rightarrow> LavaError + 'n json" where
  "request pf this method path data =
     settle pf (fetch pf (fetch_args pf this method path data))"

subsection \<open>The public methods\<close>

text \<open>
  Each method receives one parameter object (none for the three GET methods) and reads
  the properties that its destructuring pattern lists; a property that the caller left
  out reads as undefined, which is also what the pattern's default puts in its place. The
  interfaces of lines 7 to 65 are compile-time types and leave no trace in the emitted
  code. The decorator \<^verbatim>\<open>@validate\<close> comes from a package outside the repository; the
  methods are modelled as their bodies.

  For each method with parameters, the object literal \<^verbatim>\<open>data\<close> comes first, then the
  method itself.
\<close>

definition testPing :: "'n platform \<Rightarrow> Lava \<Rightarrow> LavaError + 'n json" where
  "testPing pf this =
     (let method = ''GET''; path = ''/test/ping'' in request pf this method path [])"

definition walletList :: "'n platform \<Rightarrow> Lava \<Rightarrow> LavaError + 'n json" where
  "walletList pf this =
     (let method = ''GET''; path = ''/wallet/list'' in request pf this method path [])"

definition withdrawCreate_data :: "'n object \<Rightarrow> 'n object" where
  "withdrawCreate_data args =
     [(''account'', get args ''account''),
      (''amount'', get args ''amount''),
      (''service'', get args ''service''),
      (''wallet_to'', get args ''walletTo''),
      (''order_id'', get args ''orderId''),
      (''hook_url'', get args ''hookUrl''),
      (''substract'', get args ''subtract''),
      (''comment'', get args ''comment'')]"

definition withdrawCreate :: "'n platform \<Rightarrow> Lava \<Rightarrow> 'n object \<Rightarrow> LavaError + 'n json" where
  "withdrawCreate pf this args =
     (let method = ''POST''; path = ''/withdraw/create''; data = withdrawCreate_data args
      in request pf this method path data)"

definition withdrawInfo_data :: "'n object \<Rightarrow> 'n object" where
  "withdrawInfo_data args = [(''id'', get args ''id'')]"

definition withdrawInfo :: "'n platform \<Rightarrow> Lava \<Rightarrow> 'n object \<Rightarrow> LavaError + 'n json" where
  "withdrawInfo pf this args =
     (let method = ''POST''; path = ''/withdraw/info''; data = withdrawInfo_data args
      in request pf this method path data)"

definition transferCreate_data :: "'n object \<Rightarrow> 'n object" where
  "transferCreate_data args =
     [(''account_from'', get args ''accountFrom''),
      (''account_to'', get args ''accountTo''),
      (''amount'', get args ''amount''),
      (''subtract'', get args ''subtract''),
      (''comment'', get args ''comment'')]"

definition transferCreate :: "'n platform \<Rightarrow> Lava \<Rightarrow> 'n object \<Rightarrow> LavaError + 'n json" where
  "transferCreate pf this args =
     (let method = ''POST''; path = ''/transfer/create''; data = transferCreate_data args
      in request pf this method path data)"

definition transferInfo_data :: "'n object \<Rightarrow> 'n object" where
  "transferInfo_data args = [(''id'', get args ''id'')]"

definition transferInfo :: "'n platform \<Rightarrow> Lava \<Rightarrow> 'n object \<Rightarrow> LavaError + 'n json" where
  "transferInfo pf this args =
     (let method = ''POST''; path = ''/transfer/info''; data = transferInfo_data args
      in request pf this method path data)"

definition transactionsList_data :: "'n object \<Rightarrow> 'n object" where
  "transactionsList_data args =
     [(''transfer_type'', get args ''transferType''),
      (''account'', get args ''account''),
      (''period_start'', get args ''periodStart''),
      (''period_end'', get args ''periodEnd''),
      (''offset'', get args ''offset''),
      (''limit'', get args ''limit'')]"

definition transactionsList :: "'n platform \<Rightarrow> Lava \<Rightarrow> 'n object \<Rightarrow> LavaError + 'n json" where
  "transactionsList pf this args =
     (let method = ''POST''; path = ''/transactions/list''; data = transactionsList_data args
      in request pf this method path data)"

definition invoiceCreate_data :: "'n object \<Rightarrow> 'n object" where
  "invoiceCreate_data args =
     [(''wallet_to'', get args ''walletTo''),
      (''sum'', get args ''sum''),
      (''order_id'', get args ''orderId''),
      (''hook_url'', get args ''hookUrl''),
      (''success_url'', get args ''successUrl''),
      (''fail_url'', get args ''failUrl''),
      (''expire'', get args ''expire''),
      (''subtract'', get args ''subtract''),
      (''custom_fields'', get args ''customFields''),
      (''comment'', get args ''comment''),
      (''merchant_id'', get args ''merchantId''),
      (''merchant_name'', get args ''merchantName'')]"

definition invoiceCreate :: "'n platform \<Rightarrow> Lava \<Rightarrow> 'n object \<Rightarrow> LavaError + 'n json" where
  "invoiceCreate pf this args =
     (let method = ''POST''; path = ''/invoice/create''; data = invoiceCreate_data args
      in request pf this method path data)"

definition invoiceInfo_data :: "'n object \<Rightarrow> 'n object" where
  "invoiceInfo_data args = [(''id'', get args ''id''), (''order_id'', get args ''orderId'')]"

definition invoiceInfo :: "'n platform \<Rightarrow> Lava \<Rightarrow> 'n object \<Rightarrow> LavaError + 'n json" where
  "invoiceInfo pf this args =
     (let method = ''POST''; path = ''/invoice/info''; data = invoiceInfo_data args
      in request pf this method path data)"

definition invoiceSetWebhook_data :: "'n object \<Rightarrow> 'n object" where
  "invoiceSetWebhook_data args = [(''url'', get args ''url'')]"

definition invoiceSetWebhook :: "'n platform \<Rightarrow> Lava \<Rightarrow> 'n object \<Rightarrow> LavaError + 'n json" where
  "invoiceSetWebhook pf this args =
     (let method = ''POST''; path = ''/invoice/set-webhook''; data = invoiceSetWebhook_data args
      in request pf this method path data)"

definition invoiceGenerateSecretKey :: "'n platform \<Rightarrow> Lava \<Rightarrow> LavaError + 'n json" where
  "invoiceGenerateSecretKey pf this =
     (let method = ''GET''; path = ''/invoice/generate-secret-key''
      in request pf this method path [])"

subsection \<open>All operations at once\<close>

text \<open>
  To speak of every operation, the eleven methods are named by a datatype. \<open>invoke\<close>
  calls the method; \<open>endpoint\<close> and \<open>data_of\<close> repeat, per method, the three things it
  hands to \<^verbatim>\<open>_request\<close>, so that \<open>sent\<close> is the call of \<^verbatim>\<open>fetch\<close> that the method
  leads to and \<open>body_object\<close> the object whose serialisation is its body. Lemma
  \<open>invoke_sent\<close> below ties them to the methods.
\<close>

datatype operation =
    TestPing | WalletList | WithdrawCreate | WithdrawInfo | TransferCreate | TransferInfo
  | TransactionsList | InvoiceCreate | InvoiceInfo | InvoiceSetWebhook
  | InvoiceGenerateSecretKey

fun invoke :: "'n platform \<Rightarrow> Lava \<Rightarrow> operation \<Rightarrow> 'n object \<Rightarrow> LavaError + 'n json" where
  "invoke pf this TestPing args = testPing pf this"
| "invoke pf this WalletList args = walletList pf this"
| "invoke pf this WithdrawCreate args = withdrawCreate pf this args"
| "invoke pf this WithdrawInfo args = withdrawInfo pf this args"
| "invoke pf this TransferCreate args = transferCreate pf this args"
| "invoke pf this TransferInfo args = transferInfo pf this args"
| "invoke pf this TransactionsList args = transactionsList pf this args"
| "invoke pf this InvoiceCreate args = invoiceCreate pf this args"
| "invoke pf this InvoiceInfo args = invoiceInfo pf this args"
| "invoke pf this InvoiceSetWebhook args = invoiceSetWebhook pf this args"
| "invoke pf this InvoiceGenerateSecretKey args = invoiceGenerateSecretKey pf this"

fun endpoint :: "operation \<Rightarrow> string \<times> string" where
  "endpoint TestPing = (''GET'', ''/test/ping'')"
| "endpoint WalletList = (''GET'', ''/wallet/list'')"
| "endpoint WithdrawCreate = (''POST'', ''/withdraw/create'')"
| "endpoint WithdrawInfo = (''POST'', ''/withdraw/info'')"
| "endpoint TransferCreate = (''POST'', ''/transfer/create'')"
| "endpoint TransferInfo = (''POST'', ''/transfer/info'')"
| "endpoint TransactionsList = (''POST'', ''/transactions/list'')"
| "endpoint InvoiceCreate = (''POST'', ''/invoice/create'')"
| "endpoint InvoiceInfo = (''POST'', ''/invoice/info'')"
| "endpoint InvoiceSetWebhook = (''POST'', ''/invoice/set-webhook'')"
| "endpoint InvoiceGenerateSecretKey = (''GET'', ''/invoice/generate-secret-key'')"

fun data_of :: "operation \<Rightarrow> 'n object \<Rightarrow> 'n object" where
  "data_of TestPing args = []"
| "data_of WalletList args = []"
| "data_of WithdrawCreate args = withdrawCreate_data args"
| "data_of WithdrawInfo args = withdrawInfo_data args"
| "data_of TransferCreate args = transferCreate_data args"
| "data_of TransferInfo args = transferInfo_data args"
| "data_of TransactionsList args = transactionsList_data args"
| "data_of InvoiceCreate args = invoiceCreate_data args"
| "data_of InvoiceInfo args = invoiceInfo_data args"
| "data_of InvoiceSetWebhook args = invoiceSetWebhook_data args"
| "data_of InvoiceGenerateSecretKey args = []"

definition sent :: "'n platform \<Rightarrow> Lava \<Rightarrow> operation \<Rightarrow> 'n object \<Rightarrow> fetch_call" where
  "sent pf this op args =
     fetch_args pf this (fst (endpoint op)) (snd (endpoint op)) (data_of op args)"

definition body_object :: "operation \<Rightarrow> 'n object \<Rightarrow> 'n object" where
  "body_object op args = strip_undefined (data_of op args)"

text \<open>
  The parameters of each method, under the names and in the order of its interface
  (lines 7 to 65), and what it means that the caller provided one.
\<close>

fun params_of :: "operation \<Rightarrow> string list" where
  "params_of TestPing = []"
| "params_of WalletList = []"
| "params_of WithdrawCreate =
     [''account'', ''amount'', ''service'', ''walletTo'', ''orderId'', ''hookUrl'',
      ''subtract'', ''comment'']"
| "params_of WithdrawInfo = [''id'']"
| "params_of TransferCreate =
     [''accountFrom'', ''accountTo'', ''amount'', ''subtract'', ''comment'']"
| "params_of TransferInfo = [''id'']"
| "params_of TransactionsList =
     [''transferType'', ''account'', ''periodStart'', ''periodEnd'', ''offset'', ''limit'']"
| "params_of InvoiceCreate =
     [''walletTo'', ''sum'', ''orderId'', ''hookUrl'', ''successUrl'', ''failUrl'', ''expire'',
      ''subtract'', ''customFields'', ''comment'', ''merchantId'', ''merchantName'']"
| "params_of InvoiceInfo = [''id'', ''orderId'']"
| "params_of InvoiceSetWebhook = [''url'']"
| "params_of InvoiceGenerateSecretKey = []"

text \<open>
  The same object literals read as tables: the key of each property of \<^verbatim>\<open>data\<close> and
  the parameter whose value it is given. Lemma \<open>data_of_fields\<close> below shows that the
  tables say what the literals say.
\<close>

fun data_fields :: "operation \<Rightarrow> (string \<times> string) list" where
  "data_fields TestPing = []"
| "data_fields WalletList = []"
| "data_fields WithdrawCreate =
     [(''account'', ''account''), (''amount'', ''amount''), (''service'', ''service''),
      (''wallet_to'', ''walletTo''), (''order_id'', ''orderId''), (''hook_url'', ''hookUrl''),
      (''substract'', ''subtract''), (''comment'', ''comment'')]"
| "data_fields WithdrawInfo = [(''id'', ''id'')]"
| "data_fields TransferCreate =
     [(''account_from'', ''accountFrom''), (''account_to'', ''accountTo''),
      (''amount'', ''amount''), (''subtract'', ''subtract''), (''comment'', ''comment'')]"
| "data_fields TransferInfo = [(''id'', ''id'')]"
| "data_fields TransactionsList =
     [(''transfer_type'', ''transferType''), (''account'', ''account''),
      (''period_start'', ''periodStart''), (''period_end'', ''periodEnd''),
      (''offset'', ''offset''), (''limit'', ''limit'')]"
| "data_fields InvoiceCreate =
     [(''wallet_to'', ''walletTo''), (''sum'', ''sum''), (''order_id'', ''orderId''),
      (''hook_url'', ''hookUrl''), (''success_url'', ''successUrl''),
      (''fail_url'', ''failUrl''), (''expire'', ''expire''), (''subtract'', ''subtract''),
      (''custom_fields'', ''customFields''), (''comment'', ''comment''),
      (''merchant_id'', ''merchantId''), (''merchant_name'', ''merchantName'')]"
| "data_fields InvoiceInfo = [(''id'', ''id''), (''order_id'', ''orderId'')]"
| "data_fields InvoiceSetWebhook = [(''url'', ''url'')]"
| "data_fields InvoiceGenerateSecretKey = []"

definition provided :: "'n object \<Rightarrow> string \<Rightarrow> bool" where
  "provided args name = (get args name \<noteq> Undefined)"

text \<open>
  The translation of parameter names that the specification prescribes: an underscore
  and the lower-case letter for every upper-case letter. This definition follows the
  specification, not the code; the theorems compare the two.
\<close>

definition snake_char :: "char \<Rightarrow> string" where
  "snake_char c =
     (if 65 \<le> (of_char c :: nat) \<and> (of_char c :: nat) \<le> 90
      then [CHR ''_'', ''abcdefghijklmnopqrstuvwxyz'' ! (of_char c - 65)] else [c])"

definition snake_case :: "string \<Rightarrow> string" where
  "snake_case name = concat (map snake_char name)"

subsection \<open>A platform for examples\<close>

text \<open>
  The closed examples below run on a platform whose numbers are the integers, all finite
  and written in decimal, as JavaScript writes integers below \<open>10\<^sup>2\<^sup>1\<close> in magnitude. Its
  \<^verbatim>\<open>fetch\<close> is given per example.
\<close>

fun decimal_nat :: "nat \<Rightarrow> string" where
  "decimal_nat n =
     (if n < 10 then [''0123456789'' ! n]
      else decimal_nat (n div 10) @ [''0123456789'' ! (n mod 10)])"

declare decimal_nat.simps [simp del]

definition decimal :: "int \<Rightarrow> string" where
  "decimal i = (if i < 0 then ''-'' @ decimal_nat (nat (- i)) else decimal_nat (nat i))"

definition integers :: "(fetch_call \<Rightarrow> string + int response) \<Rightarrow> int platform" where
  "integers f = \<lparr>fetch = f, number_to_string = decimal, is_finite = (\<lambda>i. True)\<rparr>"

section \<open>Properties\<close>

subsection \<open>The loop that strips undefined properties\<close>

text \<open>
  One round of the loop, on an object whose keys are distinct, removes the property
  \<open>key\<close> exactly when its value is undefined.
\<close>

lemma step_filter:
  assumes "distinct (map fst d)"
  shows "(if get d key = Undefined then delete key d else d)
         = filter (\<lambda>(k, v). \<not> (k = key \<and> v = Undefined)) d"
proof (cases "get d key = Undefined")
  case True
  have "\<And>k v. (k, v) \<in> set d \<Longrightarrow> k = key \<Longrightarrow> v = Undefined"
  proof -
    fix k v assume "(k, v) \<in> set d" "k = key"
    with assms have "map_of d key = Some v" by simp
    with True show "v = Undefined" by (simp add: get_def)
  qed
  then have "filter (\<lambda>(k, v). k \<noteq> key) d
             = filter (\<lambda>(k, v). \<not> (k = key \<and> v = Undefined)) d"
    by (intro filter_cong) auto
  with True show ?thesis by (simp add: delete_def)
next
  case False
  have "\<And>k v. (k, v) \<in> set d \<Longrightarrow> \<not> (k = key \<and> v = Undefined)"
  proof -
    fix k v assume a: "(k, v) \<in> set d"
    show "\<not> (k = key \<and> v = Undefined)"
    proof
      assume "k = key \<and> v = Undefined"
      with a assms have "map_of d key = Some Undefined" by simp
      with False show False by (simp add: get_def)
    qed
  qed
  then have "filter (\<lambda>(k, v). \<not> (k = key \<and> v = Undefined)) d = d"
    by (intro filter_True) auto
  with False show ?thesis by simp
qed

lemma fold_strip:
  "distinct (map fst d) \<Longrightarrow>
   fold (\<lambda>key d. if get d key = Undefined then delete key d else d) ks d
   = filter (\<lambda>(k, v). \<not> (k \<in> set ks \<and> v = Undefined)) d"
proof (induction ks arbitrary: d)
  case Nil
  then show ?case by simp
next
  case (Cons key ks)
  let ?d = "filter (\<lambda>(k, v). \<not> (k = key \<and> v = Undefined)) d"
  have dist: "distinct (map fst ?d)"
    using Cons.prems by (simp add: distinct_map_filter)
  have "fold (\<lambda>key d. if get d key = Undefined then delete key d else d) (key # ks) d
        = fold (\<lambda>key d. if get d key = Undefined then delete key d else d) ks ?d"
    using step_filter [OF Cons.prems, of key] by simp
  also have "\<dots> = filter (\<lambda>(k, v). \<not> (k \<in> set ks \<and> v = Undefined)) ?d"
    by (rule Cons.IH [OF dist])
  also have "\<dots> = filter (\<lambda>(k, v). \<not> (k \<in> set (key # ks) \<and> v = Undefined)) d"
    by (auto intro: filter_cong)
  finally show ?case .
qed

lemma strip_undefined_filter:
  assumes "distinct (map fst data)"
  shows "strip_undefined data = filter (\<lambda>(k, v). v \<noteq> Undefined) data"
proof -
  have "strip_undefined data
        = filter (\<lambda>(k, v). \<not> (k \<in> set (map fst data) \<and> v = Undefined)) data"
    unfolding strip_undefined_def by (rule fold_strip [OF assms])
  also have "\<dots> = filter (\<lambda>(k, v). v \<noteq> Undefined) data"
    by (intro filter_cong) force+
  finally show ?thesis .
qed

subsection \<open>The methods and the call of fetch they lead to\<close>

lemma data_of_fields: "data_of op args = map (\<lambda>(k, n). (k, get args n)) (data_fields op)"
  by (cases op)
     (simp_all add: withdrawCreate_data_def withdrawInfo_data_def transferCreate_data_def
        transferInfo_data_def transactionsList_data_def invoiceCreate_data_def
        invoiceInfo_data_def invoiceSetWebhook_data_def)

lemma distinct_fields: "distinct (map fst (data_fields op))"
  by (cases op) simp_all

lemma body_object_fields:
  "body_object op args
   = map (\<lambda>(k, n). (k, get args n)) (filter (\<lambda>(k, n). provided args n) (data_fields op))"
proof -
  have d: "distinct (map fst (data_of op args))"
    using distinct_fields [of op] by (simp add: data_of_fields comp_def case_prod_unfold)
  have "body_object op args = filter (\<lambda>(k, v). v \<noteq> Undefined) (data_of op args)"
    by (simp add: body_object_def strip_undefined_filter [OF d])
  also have "\<dots> = map (\<lambda>(k, n). (k, get args n))
                    (filter (\<lambda>(k, n). provided args n) (data_fields op))"
    by (simp add: data_of_fields filter_map comp_def case_prod_unfold provided_def)
  finally show ?thesis .
qed

lemma invoke_sent: "invoke pf this op args = settle pf (fetch pf (sent pf this op args))"
  by (cases op)
     (simp_all add: sent_def request_def testPing_def walletList_def withdrawCreate_def
        withdrawInfo_def transferCreate_def transferInfo_def transactionsList_def
        invoiceCreate_def invoiceInfo_def invoiceSetWebhook_def invoiceGenerateSecretKey_def)

lemma sent_parts:
  "url (sent pf this op args) = pathPrefix this @ snd (endpoint op)"
  "http_method (sent pf this op args) = fst (endpoint op)"
  "body (sent pf this op args) = JSON_stringify pf (body_object op args)"
  "headers (sent pf this op args) = [(''Authorization'', apiKey this)]"
  by (simp_all add: sent_def fetch_args_def body_object_def)

lemma JSON_stringify_empty: "JSON_stringify pf [] = ''{}''"
  by (simp add: JSON_stringify_def)

subsection \<open>What becomes of the outcome of fetch\<close>

lemma settle_transport: "settle pf (Inl m) = Inl (LavaError m)"
  by (simp add: settle_def)

lemma settle_parse: "json r = Inl m \<Longrightarrow> settle pf (Inr r) = Inl (LavaError m)"
  by (simp add: settle_def inspect_def)

lemma settle_null:
  "json r = Inr JNull \<Longrightarrow> settle pf (Inr r) = Inl (LavaError (cannot_read_null ''status''))"
  by (simp add: settle_def inspect_def typeof_def member_def)

lemma settle_passes:
  assumes "json r = Inr v" and "v \<noteq> JNull"
      and "member v ''status'' \<noteq> Inr (Some (JStr ''error''))"
  shows "settle pf (Inr r) = Inr v"
  using assms by (cases v) (simp_all add: settle_def inspect_def typeof_def member_def)

lemma settle_error:
  assumes "json r = Inr (JObj props)" and "map_of props ''status'' = Some (JStr ''error'')"
  shows "settle pf (Inr r) =
     Inl (LavaError
       (case ToString_prop (number_to_string pf) (map_of props ''code'') of
          None \<Rightarrow> cannot_convert
        | Some c \<Rightarrow>
           (case ToString_prop (number_to_string pf) (map_of props ''message'') of
              None \<Rightarrow> cannot_convert
            | Some t \<Rightarrow> c @ '': '' @ t)))"
  using assms
  by (simp add: settle_def inspect_def typeof_def member_def split: option.splits)

text \<open>
  When one of the two fields has no text, the message is that of the failed conversion.
\<close>

lemma settle_error_unconvertible:
  assumes "json r = Inr (JObj props)" and "map_of props ''status'' = Some (JStr ''error'')"
      and "ToString_prop (number_to_string pf) (map_of props ''code'') = None
           \<or> ToString_prop (number_to_string pf) (map_of props ''message'') = None"
  shows "settle pf (Inr r) = Inl (LavaError cannot_convert)"
  using assms by (auto simp add: settle_error split: option.splits)

text \<open>The status code of the response has no part in the outcome.\<close>

lemma settle_status: "settle pf (Inr (r\<lparr>status := s\<rparr>)) = settle pf (Inr r)"
  by (simp add: settle_def inspect_def)

subsection \<open>Responses that report an error\<close>

text \<open>
  Claim C2 gives, for every parsed response that is an object whose \<^verbatim>\<open>status\<close> is the
  text \<^verbatim>\<open>error\<close>, the message of the error as the text of \<^verbatim>\<open>code\<close>, a colon, a space
  and the text of \<^verbatim>\<open>message\<close>. As stated this fails where a field has no text: a
  template literal cannot convert an object that has an own property \<^verbatim>\<open>toString\<close>, the
  conversion throws inside the \<^verbatim>\<open>try\<close>, and the error that the caller gets carries the
  message of that failure.
\<close>

theorem unconvertible_code_changes_message:
  "invoke
     (integers (\<lambda>call. Inr \<lparr>status = 200, json = Inr (JObj
        [(''status'', JStr ''error''), (''code'', JObj [(''toString'', JNum 1)]),
         (''message'', JStr ''m'')])\<rparr>))
     (new_Lava ''key'') WithdrawInfo [(''id'', Str ''7'')]
   = Inl (LavaError ''Cannot convert object to primitive value'') \<and>
   invoke
     (integers (\<lambda>call. Inr \<lparr>status = 200, json = Inr (JObj
        [(''status'', JStr ''error''), (''code'', JObj [(''toString'', JNum 1)]),
         (''message'', JStr ''m'')])\<rparr>))
     (new_Lava ''key'') WithdrawInfo [(''id'', Str ''7'')]
   \<noteq> Inl (LavaError ''[object Object]: m'')"
  by (simp add: invoke_sent integers_def settle_def inspect_def typeof_def member_def
        ToString_prop_def cannot_convert_def)

text \<open>
  Claim C2 as amended. Whatever the operation, such a response makes it fail with a
  \<^verbatim>\<open>LavaError\<close>. When both fields have a text (every value but an object with an own
  property \<^verbatim>\<open>toString\<close> and an array that holds one; a missing field has the text
  \<^verbatim>\<open>undefined\<close>), the message is the text of \<^verbatim>\<open>code\<close>, a colon, a space and the text of
  \<^verbatim>\<open>message\<close>; otherwise it is the message of the failed conversion. The example of the
  claim is the witness.
\<close>

theorem remote_error_message:
  assumes "fetch pf (sent pf this op args) = Inr response"
      and "json response = Inr (JObj props)"
      and "map_of props ''status'' = Some (JStr ''error'')"
  shows "invoke pf this op args =
     Inl (LavaError
       (case ToString_prop (number_to_string pf) (map_of props ''code'') of
          None \<Rightarrow> cannot_convert
        | Some c \<Rightarrow>
           (case ToString_prop (number_to_string pf) (map_of props ''message'') of
              None \<Rightarrow> cannot_convert
            | Some t \<Rightarrow> c @ '': '' @ t)))"
  using assms by (simp add: invoke_sent settle_error)

theorem remote_error_message_witness:
  "invoke
     (integers (\<lambda>call. Inr \<lparr>status = 200, json = Inr (JObj
        [(''status'', JStr ''error''), (''code'', JNum 42),
         (''message'', JStr ''bad account'')])\<rparr>))
     (new_Lava ''key'') WithdrawInfo [(''id'', Str ''7'')]
   = Inl (LavaError ''42: bad account'')"
proof -
  let ?props = "[(''status'', JStr ''error''), (''code'', JNum (42::int)),
                 (''message'', JStr ''bad account'')]"
  let ?response = "\<lparr>status = 200, json = Inr (JObj ?props)\<rparr>"
  let ?pf = "integers (\<lambda>call. Inr ?response)"
  have f: "fetch ?pf (sent ?pf (new_Lava ''key'') WithdrawInfo [(''id'', Str ''7'')])
           = Inr ?response"
    by (simp add: integers_def)
  have j: "json ?response = Inr (JObj ?props)" by simp
  have s: "map_of ?props ''status'' = Some (JStr ''error'')" by simp
  have c: "ToString_prop (number_to_string ?pf) (map_of ?props ''code'') = Some ''42''"
    by (simp add: ToString_prop_def integers_def decimal_def decimal_nat.simps)
  have m: "ToString_prop (number_to_string ?pf) (map_of ?props ''message'')
           = Some ''bad account''"
    by (simp add: ToString_prop_def)
  from remote_error_message [OF f j s] c m show ?thesis by simp
qed



subsection \<open>Responses that report no error\<close>

text \<open>
  Every parsed value other than null that is not an object with \<^verbatim>\<open>status\<close> equal to
  \<^verbatim>\<open>error\<close> is returned as it is: arrays, numbers, texts, booleans and all other objects.
\<close>

lemma other_responses_returned:
  assumes "fetch pf (sent pf this op args) = Inr response"
      and "json response = Inr v" and "v \<noteq> JNull"
      and "member v ''status'' \<noteq> Inr (Some (JStr ''error''))"
  shows "invoke pf this op args = Inr v"
  using assms by (simp add: invoke_sent settle_passes)

text \<open>
  Claim C3 counts null among the values that are returned unchanged. The code does not
  return it: \<^verbatim>\<open>typeof null\<close> is \<^verbatim>\<open>'object'\<close>, so line 233 goes on to read \<^verbatim>\<open>null.status\<close>,
  which throws, and the \<^verbatim>\<open>catch\<close> turns that into a \<^verbatim>\<open>LavaError\<close>. The theorem runs
  \<^verbatim>\<open>testPing\<close> against a response whose body is the JSON text \<^verbatim>\<open>null\<close>.
\<close>

theorem null_response_raises:
  "invoke (integers (\<lambda>call. Inr \<lparr>status = 200, json = Inr JNull\<rparr>)) (new_Lava ''key'')
     TestPing []
   = Inl (LavaError (cannot_read_null ''status''))"
  by (simp add: invoke_sent settle_null integers_def)

text \<open>
  Claim C10. The status code is never read: lemma \<open>settle_status\<close> above. The claim
  concludes that a response with any status code, 500 for one, and a body that reports no
  error is a success; for the body \<^verbatim>\<open>null\<close> the code fails as it does under claim C3,
  here for \<^verbatim>\<open>transferInfo\<close> and status 500.
\<close>

theorem null_response_with_status_500_raises:
  "invoke (integers (\<lambda>call. Inr \<lparr>status = 500, json = Inr JNull\<rparr>)) (new_Lava ''key'')
     TransferInfo [(''id'', Str ''7'')]
   = Inl (LavaError (cannot_read_null ''status''))"
  by (simp add: invoke_sent settle_null integers_def)

subsection \<open>Failures\<close>

text \<open>
  Claim C5. Every way in which an operation can end, with the message it ends with:
  \<^item> a rejected \<^verbatim>\<open>fetch\<close> gives a \<^verbatim>\<open>LavaError\<close> with the message of the rejection;
  \<^item> a body that does not parse gives a \<^verbatim>\<open>LavaError\<close> with the message of the parser;
  \<^item> a response that reports an error gives a \<^verbatim>\<open>LavaError\<close> with the message that line
    234 builds from \<^verbatim>\<open>code\<close> and \<^verbatim>\<open>message\<close>, or with the message of the conversion that
    failed while building it;
  \<^item> the body \<^verbatim>\<open>null\<close> gives a \<^verbatim>\<open>LavaError\<close> with the message of the failed read of
    \<^verbatim>\<open>null.status\<close>;
  \<^item> any other body is returned as parsed.
  So an operation either fails with a \<^verbatim>\<open>LavaError\<close> or returns the value that the body of
  the response parsed to. The witness runs one operation against a refused connection, a
  body that is not JSON, a reported error and a reported success.
\<close>

theorem every_failure_is_LavaError:
  "(\<forall>m. fetch pf (sent pf this op args) = Inl m \<longrightarrow>
        invoke pf this op args = Inl (LavaError m)) \<and>
   (\<forall>r m. fetch pf (sent pf this op args) = Inr r \<longrightarrow> json r = Inl m \<longrightarrow>
        invoke pf this op args = Inl (LavaError m)) \<and>
   (\<forall>r props. fetch pf (sent pf this op args) = Inr r \<longrightarrow> json r = Inr (JObj props) \<longrightarrow>
        map_of props ''status'' = Some (JStr ''error'') \<longrightarrow>
        invoke pf this op args =
          Inl (LavaError
            (case ToString_prop (number_to_string pf) (map_of props ''code'') of
               None \<Rightarrow> cannot_convert
             | Some c \<Rightarrow>
                (case ToString_prop (number_to_string pf) (map_of props ''message'') of
                   None \<Rightarrow> cannot_convert
                 | Some t \<Rightarrow> c @ '': '' @ t)))) \<and>
   (\<forall>r. fetch pf (sent pf this op args) = Inr r \<longrightarrow> json r = Inr JNull \<longrightarrow>
        invoke pf this op args = Inl (LavaError (cannot_read_null ''status''))) \<and>
   (\<forall>r v. fetch pf (sent pf this op args) = Inr r \<longrightarrow> json r = Inr v \<longrightarrow> v \<noteq> JNull \<longrightarrow>
        member v ''status'' \<noteq> Inr (Some (JStr ''error'')) \<longrightarrow>
        invoke pf this op args = Inr v) \<and>
   ((\<exists>m. invoke pf this op args = Inl (LavaError m)) \<or>
    (\<exists>r v. fetch pf (sent pf this op args) = Inr r \<and> json r = Inr v \<and>
        invoke pf this op args = Inr v))"
proof (intro conjI allI impI)
  fix m assume "fetch pf (sent pf this op args) = Inl m"
  then show "invoke pf this op args = Inl (LavaError m)"
    by (simp add: invoke_sent settle_transport)
next
  fix r m assume "fetch pf (sent pf this op args) = Inr r" and "json r = Inl m"
  then show "invoke pf this op args = Inl (LavaError m)"
    by (simp add: invoke_sent settle_parse)
next
  fix r props
  assume "fetch pf (sent pf this op args) = Inr r" and "json r = Inr (JObj props)"
     and "map_of props ''status'' = Some (JStr ''error'')"
  then show "invoke pf this op args =
          Inl (LavaError
            (case ToString_prop (number_to_string pf) (map_of props ''code'') of
               None \<Rightarrow> cannot_convert
             | Some c \<Rightarrow>
                (case ToString_prop (number_to_string pf) (map_of props ''message'') of
                   None \<Rightarrow> cannot_convert
                 | Some t \<Rightarrow> c @ '': '' @ t)))"
    by (simp add: invoke_sent settle_error)
next
  fix r assume "fetch pf (sent pf this op args) = Inr r" and "json r = Inr JNull"
  then show "invoke pf this op args = Inl (LavaError (cannot_read_null ''status''))"
    by (simp add: invoke_sent settle_null)
next
  fix r v
  assume "fetch pf (sent pf this op args) = Inr r" and "json r = Inr v" and "v \<noteq> JNull"
     and "member v ''status'' \<noteq> Inr (Some (JStr ''error''))"
  then show "invoke pf this op args = Inr v"
    by (simp add: invoke_sent settle_passes)
next
  show "(\<exists>m. invoke pf this op args = Inl (LavaError m)) \<or>
        (\<exists>r v. fetch pf (sent pf this op args) = Inr r \<and> json r = Inr v \<and>
           invoke pf this op args = Inr v)"
  proof (cases "invoke pf this op args")
    case (Inl e)
    then show ?thesis by (cases e) simp
  next
    case (Inr v)
    then have "settle pf (fetch pf (sent pf this op args)) = Inr v"
      by (simp add: invoke_sent)
    then obtain r where "fetch pf (sent pf this op args) = Inr r" and "json r = Inr v"
      by (auto simp add: settle_def inspect_def split: sum.splits if_splits option.splits)
    with Inr show ?thesis by simp
  qed
qed

theorem every_failure_is_LavaError_witness:
  "invoke (integers (\<lambda>call. Inl ''connect ECONNREFUSED 127.0.0.1:443'')) (new_Lava ''key'')
     InvoiceSetWebhook [(''url'', Str ''https://shop.example/hook'')]
   = Inl (LavaError ''connect ECONNREFUSED 127.0.0.1:443'') \<and>
   invoke (integers (\<lambda>call. Inr \<lparr>status = 502, json = Inl ''Unexpected token < in JSON at position 0''\<rparr>))
     (new_Lava ''key'') InvoiceSetWebhook [(''url'', Str ''https://shop.example/hook'')]
   = Inl (LavaError ''Unexpected token < in JSON at position 0'') \<and>
   invoke (integers (\<lambda>call. Inr \<lparr>status = 200, json = Inr (JObj
        [(''status'', JStr ''error''), (''code'', JNum 7), (''message'', JStr ''no such wallet'')])\<rparr>))
     (new_Lava ''key'') InvoiceSetWebhook [(''url'', Str ''https://shop.example/hook'')]
   = Inl (LavaError ''7: no such wallet'') \<and>
   invoke (integers (\<lambda>call. Inr \<lparr>status = 200, json = Inr (JObj [(''status'', JStr ''success'')])\<rparr>))
     (new_Lava ''key'') InvoiceSetWebhook [(''url'', Str ''https://shop.example/hook'')]
   = Inr (JObj [(''status'', JStr ''success'')])"
proof -
  let ?client = "new_Lava ''key''"
  let ?args = "[(''url'', Str ''https://shop.example/hook'')] :: int object"
  let ?refused = "integers (\<lambda>call. Inl ''connect ECONNREFUSED 127.0.0.1:443'')"
  let ?html = "\<lparr>status = 502, json = Inl ''Unexpected token < in JSON at position 0''\<rparr>
                :: int response"
  let ?props = "[(''status'', JStr ''error''), (''code'', JNum (7::int)),
                 (''message'', JStr ''no such wallet'')]"
  let ?error = "\<lparr>status = 200, json = Inr (JObj ?props)\<rparr>"
  let ?ok = "\<lparr>status = 200, json = Inr (JObj [(''status'', JStr ''success'')])\<rparr> :: int response"
  have a: "invoke ?refused ?client InvoiceSetWebhook ?args
           = Inl (LavaError ''connect ECONNREFUSED 127.0.0.1:443'')"
    using every_failure_is_LavaError [of ?refused ?client InvoiceSetWebhook ?args]
    by (simp add: integers_def)
  have b: "invoke (integers (\<lambda>call. Inr ?html)) ?client InvoiceSetWebhook ?args
           = Inl (LavaError ''Unexpected token < in JSON at position 0'')"
    using every_failure_is_LavaError
      [of "integers (\<lambda>call. Inr ?html)" ?client InvoiceSetWebhook ?args]
    by (simp add: integers_def)
  have c: "invoke (integers (\<lambda>call. Inr ?error)) ?client InvoiceSetWebhook ?args
           = Inl (LavaError ''7: no such wallet'')"
  proof -
    have "fetch (integers (\<lambda>call. Inr ?error))
            (sent (integers (\<lambda>call. Inr ?error)) ?client InvoiceSetWebhook ?args) = Inr ?error"
      by (simp add: integers_def)
    moreover have "json ?error = Inr (JObj ?props)" by simp
    moreover have "map_of ?props ''status'' = Some (JStr ''error'')" by simp
    ultimately have "invoke (integers (\<lambda>call. Inr ?error)) ?client InvoiceSetWebhook ?args =
          Inl (LavaError
            (case ToString_prop (number_to_string (integers (\<lambda>call. Inr ?error)))
                    (map_of ?props ''code'') of
               None \<Rightarrow> cannot_convert
             | Some c \<Rightarrow>
                (case ToString_prop (number_to_string (integers (\<lambda>call. Inr ?error)))
                        (map_of ?props ''message'') of
                   None \<Rightarrow> cannot_convert
                 | Some t \<Rightarrow> c @ '': '' @ t)))"
      using every_failure_is_LavaError
        [of "integers (\<lambda>call. Inr ?error)" ?client InvoiceSetWebhook ?args]
      by blast
    then show ?thesis
      by (simp add: ToString_prop_def integers_def decimal_def decimal_nat.simps)
  qed
  have d: "invoke (integers (\<lambda>call. Inr ?ok)) ?client InvoiceSetWebhook ?args
           = Inr (JObj [(''status'', JStr ''success'')])"
  proof -
    have "fetch (integers (\<lambda>call. Inr ?ok))
            (sent (integers (\<lambda>call. Inr ?ok)) ?client InvoiceSetWebhook ?args) = Inr ?ok"
      by (simp add: integers_def)
    moreover have "json ?ok = Inr (JObj [(''status'', JStr ''success'')])" by simp
    moreover have "JObj [(''status'', JStr ''success'')] \<noteq> (JNull :: int json)" by simp
    moreover have "member (JObj [(''status'', JStr ''success'')] :: int json) ''status''
                   \<noteq> Inr (Some (JStr ''error''))"
      by (simp add: member_def)
    ultimately show ?thesis
      using every_failure_is_LavaError
        [of "integers (\<lambda>call. Inr ?ok)" ?client InvoiceSetWebhook ?args]
      by blast
  qed
  from a b c d show ?thesis by simp
qed

subsection \<open>The request\<close>

text \<open>
  Claim C6. On a client constructed with an API key, whatever has been assigned to its
  \<^verbatim>\<open>pathPrefix\<close> since, every operation calls \<^verbatim>\<open>fetch\<close> with one header,
  \<^verbatim>\<open>Authorization\<close>, whose value is the key itself.
\<close>

theorem authorization_header:
  "headers (sent pf ((new_Lava key)\<lparr>pathPrefix := prefix\<rparr>) op args)
     = [(''Authorization'', key)] \<and>
   invoke pf ((new_Lava key)\<lparr>pathPrefix := prefix\<rparr>) op args
     = settle pf (fetch pf (sent pf ((new_Lava key)\<lparr>pathPrefix := prefix\<rparr>) op args))"
  by (simp add: invoke_sent sent_parts new_Lava_def)

text \<open>The operations that use GET are the three without parameters.\<close>

lemma get_operations:
  "http_method (sent pf this op args) = ''GET''
   \<longleftrightarrow> op \<in> {TestPing, WalletList, InvoiceGenerateSecretKey}"
  by (cases op) (simp_all add: sent_parts)

text \<open>
  Claim C7 says that the GET operations send no body. \<^verbatim>\<open>_request\<close> does not tell GET
  from POST: line 229 serialises \<^verbatim>\<open>data\<close> for every method alike, so for a GET too
  \<^verbatim>\<open>fetch\<close> is called with a body, the two characters that \<^verbatim>\<open>JSON.stringify\<close> makes of
  the empty object. The theorem is the call that \<^verbatim>\<open>testPing\<close> makes.
\<close>

theorem get_request_carries_body:
  "sent (integers (\<lambda>call. Inl [])) (new_Lava ''key'') TestPing []
   = \<lparr>url = ''https://api.lava.ru/test/ping'', http_method = ''GET'', body = ''{}'',
      headers = [(''Authorization'', ''key'')]\<rparr>"
  by (simp add: sent_def fetch_args_def strip_undefined_def JSON_stringify_empty new_Lava_def)

text \<open>
  The same holds of all three GET operations; and where \<^verbatim>\<open>fetch\<close> refuses a GET that
  has a body, each of them fails on every call.
\<close>

lemma get_operations_pass_a_body:
  assumes "op \<in> {TestPing, WalletList, InvoiceGenerateSecretKey}"
  shows "http_method (sent pf this op args) = ''GET'' \<and> body_object op args = [] \<and>
         body (sent pf this op args) = ''{}''"
  using assms
  by (auto simp add: sent_parts body_object_def strip_undefined_def JSON_stringify_empty)

lemma get_fails_where_fetch_refuses_body:
  assumes "op \<in> {TestPing, WalletList, InvoiceGenerateSecretKey}"
      and "\<And>call. http_method call = ''GET'' \<Longrightarrow> body call \<noteq> [] \<Longrightarrow> fetch pf call = Inl m"
  shows "invoke pf this op args = Inl (LavaError m)"
proof -
  from assms(1) have "http_method (sent pf this op args) = ''GET''"
    and "body (sent pf this op args) = ''{}''"
    by (auto simp add: sent_parts body_object_def strip_undefined_def JSON_stringify_empty)
  with assms(2) have "fetch pf (sent pf this op args) = Inl m" by simp
  then show ?thesis by (simp add: invoke_sent settle_transport)
qed

subsection \<open>The keys of the body\<close>

text \<open>
  A parameter that the caller left unset never appears in the body under the key that the
  method gives it; one that the caller provided appears under that key with its value.
\<close>

lemma unset_never_sent:
  assumes "(k, n) \<in> set (data_fields op)" and "\<not> provided args n"
  shows "k \<notin> fst ` set (body_object op args)"
proof
  assume "k \<in> fst ` set (body_object op args)"
  then obtain n' where f: "(k, n') \<in> set (data_fields op)" and p: "provided args n'"
    by (auto simp add: body_object_fields)
  have d: "distinct (map fst (data_fields op))" by (rule distinct_fields)
  from d assms(1) have "map_of (data_fields op) k = Some n" by simp
  moreover from d f have "map_of (data_fields op) k = Some n'" by simp
  ultimately have "n' = n" by simp
  with p assms(2) show False by simp
qed

lemma provided_value_sent:
  assumes "(k, n) \<in> set (data_fields op)" and "provided args n"
  shows "map_of (body_object op args) k = Some (get args n)"
proof -
  let ?kept = "filter (\<lambda>(k, n). provided args n) (data_fields op)"
  have "distinct (map fst ?kept)"
    using distinct_fields [of op] by (simp add: distinct_map_filter)
  then have "distinct (map fst (body_object op args))"
    by (simp add: body_object_fields comp_def case_prod_unfold)
  moreover have "(k, get args n) \<in> set (body_object op args)"
    using assms by (force simp add: body_object_fields)
  ultimately show ?thesis by simp
qed

text \<open>
  In every method but \<^verbatim>\<open>withdrawCreate\<close> the key of each parameter is its name in snake
  case, so there the keys of the body are the snake-case names of the provided parameters,
  no more and no fewer, each with the value the caller gave.
\<close>

lemma fields_snake:
  "op \<noteq> WithdrawCreate \<Longrightarrow> data_fields op = map (\<lambda>n. (snake_case n, n)) (params_of op)"
  by (cases op) (simp_all add: snake_case_def snake_char_def)

lemma body_keys_exact:
  assumes "op \<noteq> WithdrawCreate"
  shows "map fst (body_object op args) = map snake_case (filter (provided args) (params_of op))"
  by (simp add: body_object_fields fields_snake [OF assms] filter_map comp_def)

lemma unset_param_never_sent:
  assumes "op \<noteq> WithdrawCreate" and "n \<in> set (params_of op)" and "\<not> provided args n"
  shows "snake_case n \<notin> fst ` set (body_object op args)"
proof -
  from assms(2) have "(snake_case n, n) \<in> set (data_fields op)"
    by (simp add: fields_snake [OF assms(1)])
  from unset_never_sent [OF this assms(3)] show ?thesis .
qed

lemma provided_param_sent:
  assumes "op \<noteq> WithdrawCreate" and "n \<in> set (params_of op)" and "provided args n"
  shows "map_of (body_object op args) (snake_case n) = Some (get args n)"
proof -
  from assms(2) have "(snake_case n, n) \<in> set (data_fields op)"
    by (simp add: fields_snake [OF assms(1)])
  from provided_value_sent [OF this assms(3)] show ?thesis .
qed

text \<open>
  Claim C1 asks for this of every operation. \<^verbatim>\<open>withdrawCreate\<close> breaks it: line 104
  spells the key of the parameter \<^verbatim>\<open>subtract\<close> as \<^verbatim>\<open>substract\<close>, where \<^verbatim>\<open>transferCreate\<close>
  (line 126) and \<^verbatim>\<open>invoiceCreate\<close> (line 187) have \<^verbatim>\<open>subtract\<close>. The theorem gives, for a
  withdrawal with \<^verbatim>\<open>subtract\<close> provided, the keys that are sent and the keys that the claim
  expects.
\<close>

theorem withdrawCreate_keys_with_subtract:
  "map fst (body_object WithdrawCreate
     [(''account'', Str ''A1''), (''amount'', Num (100::int)), (''service'', Str ''card''),
      (''walletTo'', Str ''W1''), (''subtract'', Bool True)])
   = [''account'', ''amount'', ''service'', ''wallet_to'', ''substract'']
   \<and> map snake_case (filter (provided
     [(''account'', Str ''A1''), (''amount'', Num (100::int)), (''service'', Str ''card''),
      (''walletTo'', Str ''W1''), (''subtract'', Bool True)]) (params_of WithdrawCreate))
   = [''account'', ''amount'', ''service'', ''wallet_to'', ''subtract'']"
  by (simp add: body_object_fields provided_def get_def snake_case_def snake_char_def)

text \<open>
  Claim C4 names the key of each parameter, \<^verbatim>\<open>wallet_to\<close> for \<^verbatim>\<open>walletTo\<close> and \<^verbatim>\<open>subtract\<close>
  for \<^verbatim>\<open>subtract\<close> among them, and takes \<^verbatim>\<open>createWithdrawal\<close> as its example. For the same
  withdrawal, the body has \<^verbatim>\<open>wallet_to\<close> with the value given, has no property
  \<^verbatim>\<open>subtract\<close>, and has the value of \<^verbatim>\<open>subtract\<close> under \<^verbatim>\<open>substract\<close>.
\<close>

theorem withdrawCreate_subtract_under_substract:
  "get (body_object WithdrawCreate
     [(''account'', Str ''A1''), (''amount'', Num (100::int)), (''service'', Str ''card''),
      (''walletTo'', Str ''W1''), (''subtract'', Bool True)]) ''wallet_to'' = Str ''W1''
   \<and> get (body_object WithdrawCreate
     [(''account'', Str ''A1''), (''amount'', Num (100::int)), (''service'', Str ''card''),
      (''walletTo'', Str ''W1''), (''subtract'', Bool True)]) ''subtract'' = Undefined
   \<and> get (body_object WithdrawCreate
     [(''account'', Str ''A1''), (''amount'', Num (100::int)), (''service'', Str ''card''),
      (''walletTo'', Str ''W1''), (''subtract'', Bool True)]) ''substract'' = Bool True"
  by (simp add: body_object_fields provided_def get_def)

text \<open>
  Claim C8. When neither \<^verbatim>\<open>id\<close> nor \<^verbatim>\<open>orderId\<close> is provided, \<^verbatim>\<open>invoiceInfo\<close> checks
  nothing: the body has no property, the request is the POST to \<^verbatim>\<open>/invoice/info\<close>, and
  the outcome of the method is what becomes of the outcome of that request. In the witness
  the parameter object is empty and the server answers with an empty array, which the
  method returns.
\<close>

theorem invoiceInfo_without_identifiers:
  assumes "get args ''id'' = Undefined" and "get args ''orderId'' = Undefined"
  shows "body_object InvoiceInfo args = [] \<and>
         sent pf this InvoiceInfo args
           = \<lparr>url = pathPrefix this @ ''/invoice/info'', http_method = ''POST'', body = ''{}'',
              headers = [(''Authorization'', apiKey this)]\<rparr> \<and>
         invoiceInfo pf this args = settle pf (fetch pf (sent pf this InvoiceInfo args))"
proof -
  have b: "body_object InvoiceInfo args = []"
    using assms by (simp add: body_object_fields provided_def)
  have s: "sent pf this InvoiceInfo args
           = \<lparr>url = pathPrefix this @ ''/invoice/info'', http_method = ''POST'', body = ''{}'',
              headers = [(''Authorization'', apiKey this)]\<rparr>"
    using sent_parts [of pf this InvoiceInfo args] b by (simp add: JSON_stringify_empty)
  have i: "invoiceInfo pf this args = settle pf (fetch pf (sent pf this InvoiceInfo args))"
    using invoke_sent [of pf this InvoiceInfo args] by simp
  from b s i show ?thesis by simp
qed

theorem invoiceInfo_without_identifiers_witness:
  "body_object InvoiceInfo ([] :: int object) = [] \<and>
   sent (integers (\<lambda>call. Inr \<lparr>status = 200, json = Inr (JArr [])\<rparr>)) (new_Lava ''key'')
       InvoiceInfo []
     = \<lparr>url = ''https://api.lava.ru/invoice/info'', http_method = ''POST'', body = ''{}'',
        headers = [(''Authorization'', ''key'')]\<rparr> \<and>
   invoiceInfo (integers (\<lambda>call. Inr \<lparr>status = 200, json = Inr (JArr [])\<rparr>)) (new_Lava ''key'')
       []
     = Inr (JArr [])"
proof -
  let ?pf = "integers (\<lambda>call. Inr \<lparr>status = 200, json = Inr (JArr [])\<rparr>)"
  have a: "get ([] :: int object) ''id'' = Undefined"
          "get ([] :: int object) ''orderId'' = Undefined"
    by (simp_all add: get_def)
  have "settle ?pf (fetch ?pf (sent ?pf (new_Lava ''key'') InvoiceInfo [])) = Inr (JArr [])"
    by (simp add: integers_def settle_def inspect_def typeof_def member_def)
  with invoiceInfo_without_identifiers [OF a, of ?pf "new_Lava ''key''"]
  show ?thesis by (simp add: new_Lava_def)
qed

end
